theory Spec2Isabelle
  imports Complex_Main
begin

section \<open>Numbers and strings of the host language\<close>

text \<open>
  The merger in \<^verbatim>\<open>app/utils/transcriptMerger.ts\<close> computes with JavaScript numbers and
  strings. A number is modelled as \<open>NaN\<close>, an infinity, or \<open>Fin q\<close> with \<open>q\<close> the exact
  rational value: rounding to the nearest double is not modelled, so the model agrees with
  the program wherever the doubles are exact (all integer millisecond values below
  \<open>2^53\<close>, and their halves). Zero is the positive zero.
\<close>

datatype jsnum = NaN | Fin rat | PosInf | NegInf

definition jinf :: "rat \<Rightarrow> jsnum" where
  "jinf s = (if s > 0 then PosInf else if s < 0 then NegInf else NaN)"

fun jsgn :: "jsnum \<Rightarrow> rat" where
  "jsgn NaN = 0"
| "jsgn (Fin a) = sgn a"
| "jsgn PosInf = 1"
| "jsgn NegInf = -1"

fun jneg :: "jsnum \<Rightarrow> jsnum" where
  "jneg NaN = NaN"
| "jneg (Fin a) = Fin (- a)"
| "jneg PosInf = NegInf"
| "jneg NegInf = PosInf"

fun jadd :: "jsnum \<Rightarrow> jsnum \<Rightarrow> jsnum" where
  "jadd (Fin a) (Fin b) = Fin (a + b)"
| "jadd NaN _ = NaN"
| "jadd _ NaN = NaN"
| "jadd PosInf NegInf = NaN"
| "jadd NegInf PosInf = NaN"
| "jadd PosInf _ = PosInf"
| "jadd _ PosInf = PosInf"
| "jadd NegInf _ = NegInf"
| "jadd _ NegInf = NegInf"

definition jsub :: "jsnum \<Rightarrow> jsnum \<Rightarrow> jsnum" where
  "jsub x y = jadd x (jneg y)"

fun jmul :: "jsnum \<Rightarrow> jsnum \<Rightarrow> jsnum" where
  "jmul (Fin a) (Fin b) = Fin (a * b)"
| "jmul NaN _ = NaN"
| "jmul _ NaN = NaN"
| "jmul x y = jinf (jsgn x * jsgn y)"

fun jdiv :: "jsnum \<Rightarrow> jsnum \<Rightarrow> jsnum" where
  "jdiv (Fin a) (Fin b) = (if b = 0 then jinf (sgn a) else Fin (a / b))"
| "jdiv NaN _ = NaN"
| "jdiv _ NaN = NaN"
| "jdiv (Fin a) _ = Fin 0"
| "jdiv x (Fin b) = jinf (jsgn x * (if b < 0 then -1 else 1))"
| "jdiv _ _ = NaN"

text \<open>The remainder \<^verbatim>\<open>%\<close> truncates the quotient towards zero.\<close>

definition trunc :: "rat \<Rightarrow> int" where
  "trunc q = (if q < 0 then \<lceil>q\<rceil> else \<lfloor>q\<rfloor>)"

fun jmod :: "jsnum \<Rightarrow> jsnum \<Rightarrow> jsnum" where
  "jmod (Fin a) (Fin b) = (if b = 0 then NaN else Fin (a - b * of_int (trunc (a / b))))"
| "jmod (Fin a) PosInf = Fin a"
| "jmod (Fin a) NegInf = Fin a"
| "jmod _ _ = NaN"

text \<open>\<^verbatim>\<open>x <= y\<close>; every comparison with \<open>NaN\<close> is false. \<^verbatim>\<open>x >= y\<close> is \<open>jle y x\<close>.\<close>

fun jle :: "jsnum \<Rightarrow> jsnum \<Rightarrow> bool" where
  "jle (Fin a) (Fin b) = (a \<le> b)"
| "jle NaN _ = False"
| "jle _ NaN = False"
| "jle NegInf _ = True"
| "jle _ PosInf = True"
| "jle _ _ = False"

definition jge :: "jsnum \<Rightarrow> jsnum \<Rightarrow> bool" where
  "jge x y = jle y x"

text \<open>
  \<^verbatim>\<open>Math.floor\<close> returns an integral number; the model keeps that in the type, and
  \<open>toString\<close> is defined on those values (decimal digits, as the program prints for
  integral values below \<open>10^21\<close>).
\<close>

datatype jsint = INaN | IFin int | IPosInf | INegInf

fun jsnum_of :: "jsint \<Rightarrow> jsnum" where
  "jsnum_of INaN = NaN"
| "jsnum_of (IFin i) = Fin (of_int i)"
| "jsnum_of IPosInf = PosInf"
| "jsnum_of INegInf = NegInf"

fun Math_floor :: "jsnum \<Rightarrow> jsint" where
  "Math_floor NaN = INaN"
| "Math_floor (Fin q) = IFin \<lfloor>q\<rfloor>"
| "Math_floor PosInf = IPosInf"
| "Math_floor NegInf = INegInf"

definition digit_char :: "nat \<Rightarrow> char" where
  "digit_char d = char_of (48 + d)"

fun digits_of :: "nat \<Rightarrow> string" where
  "digits_of n = (if n < 10 then [digit_char n] else digits_of (n div 10) @ [digit_char (n mod 10)])"

declare digits_of.simps [simp del]

fun toString :: "jsint \<Rightarrow> string" where
  "toString INaN = ''NaN''"
| "toString (IFin i) = (if i < 0 then CHR ''-'' # digits_of (nat (- i)) else digits_of (nat i))"
| "toString IPosInf = ''Infinity''"
| "toString INegInf = ''-Infinity''"

text \<open>\<^verbatim>\<open>s.padStart(n, c)\<close> with a one-character filler.\<close>

definition padStart :: "nat \<Rightarrow> char \<Rightarrow> string \<Rightarrow> string" where
  "padStart n c s = replicate (n - length s) c @ s"

text \<open>\<^verbatim>\<open>s.split(c)\<close> with a one-character separator: never the empty list.\<close>

fun cons_first :: "char \<Rightarrow> string list \<Rightarrow> string list" where
  "cons_first x [] = [[x]]"
| "cons_first x (w # ws) = (x # w) # ws"

fun str_split :: "char \<Rightarrow> string \<Rightarrow> string list" where
  "str_split c [] = [[]]"
| "str_split c (x # xs) =
     (if x = c then [] # str_split c xs else cons_first x (str_split c xs))"

text \<open>
  White space as \<^verbatim>\<open>trim\<close> and \<^verbatim>\<open>Number\<close> strip it: tab, line feed, vertical tab, form
  feed, carriage return, space, no-break space (the code units below 256).
\<close>

definition is_space :: "char \<Rightarrow> bool" where
  "is_space c = ((of_char c :: nat) \<in> {9, 10, 11, 12, 13, 32, 160})"

definition str_trim :: "string \<Rightarrow> string" where
  "str_trim s = rev (dropWhile is_space (rev (dropWhile is_space s)))"

subsection \<open>String to number\<close>

text \<open>
  \<^verbatim>\<open>Number(s)\<close> on a string: white space is stripped; the empty string is 0; a signed
  decimal literal (digits, optional fraction, optional exponent), \<^verbatim>\<open>Infinity\<close>, or an
  unsigned hexadecimal, octal or binary literal is its value; anything else is \<open>NaN\<close>.
\<close>

definition is_digit :: "char \<Rightarrow> bool" where
  "is_digit c = (48 \<le> (of_char c :: nat) \<and> (of_char c :: nat) \<le> 57)"

definition digit_val :: "char \<Rightarrow> nat" where
  "digit_val c = of_char c - 48"

definition digits_val :: "string \<Rightarrow> nat" where
  "digits_val s = foldl (\<lambda>acc c. 10 * acc + digit_val c) 0 s"

definition hex_val :: "char \<Rightarrow> nat option" where
  "hex_val c =
     (let k = (of_char c :: nat) in
      if 48 \<le> k \<and> k \<le> 57 then Some (k - 48)
      else if 65 \<le> k \<and> k \<le> 70 then Some (k - 55)
      else if 97 \<le> k \<and> k \<le> 102 then Some (k - 87)
      else None)"

fun radix_val :: "nat \<Rightarrow> nat \<Rightarrow> string \<Rightarrow> nat option" where
  "radix_val b acc [] = Some acc"
| "radix_val b acc (c # cs) =
     (case hex_val c of
        None \<Rightarrow> None
      | Some d \<Rightarrow> if d < b then radix_val b (b * acc + d) cs else None)"

definition parse_nondecimal :: "string \<Rightarrow> nat option" where
  "parse_nondecimal t =
     (case t of
        c0 # c1 # c2 # rest \<Rightarrow>
          if c0 \<noteq> CHR ''0'' then None
          else if c1 = CHR ''x'' \<or> c1 = CHR ''X'' then radix_val 16 0 (c2 # rest)
          else if c1 = CHR ''o'' \<or> c1 = CHR ''O'' then radix_val 8 0 (c2 # rest)
          else if c1 = CHR ''b'' \<or> c1 = CHR ''B'' then radix_val 2 0 (c2 # rest)
          else None
      | _ \<Rightarrow> None)"

definition parse_exponent :: "string \<Rightarrow> int option" where
  "parse_exponent r =
     (case r of
        [] \<Rightarrow> Some 0
      | c # r1 \<Rightarrow>
          if c = CHR ''e'' \<or> c = CHR ''E'' then
            (case r1 of
               [] \<Rightarrow> None
             | s # r2 \<Rightarrow>
                 if s = CHR ''+'' then
                   (if r2 \<noteq> [] \<and> list_all is_digit r2 then Some (int (digits_val r2)) else None)
                 else if s = CHR ''-'' then
                   (if r2 \<noteq> [] \<and> list_all is_digit r2 then Some (- int (digits_val r2)) else None)
                 else if list_all is_digit r1 then Some (int (digits_val r1))
                 else None)
          else None)"

definition parse_unsigned_decimal :: "string \<Rightarrow> jsnum" where
  "parse_unsigned_decimal u =
     (if u = ''Infinity'' then PosInf
      else
        let ip = takeWhile is_digit u;
            r1 = dropWhile is_digit u;
            dot = (r1 \<noteq> [] \<and> hd r1 = CHR ''.'');
            fp = (if dot then takeWhile is_digit (tl r1) else []);
            r2 = (if dot then dropWhile is_digit (tl r1) else r1)
        in if ip = [] \<and> fp = [] then NaN
           else case parse_exponent r2 of
                  None \<Rightarrow> NaN
                | Some e \<Rightarrow>
                    Fin ((of_nat (digits_val ip) + of_nat (digits_val fp) / 10 ^ length fp)
                         * (if e < 0 then 1 / 10 ^ nat (- e) else 10 ^ nat e)))"

definition Number :: "string \<Rightarrow> jsnum" where
  "Number s =
     (let t = str_trim s in
      if t = [] then Fin 0
      else case parse_nondecimal t of
             Some n \<Rightarrow> Fin (of_nat n)
           | None \<Rightarrow>
               if hd t = CHR ''+'' then parse_unsigned_decimal (tl t)
               else if hd t = CHR ''-'' then jneg (parse_unsigned_decimal (tl t))
               else parse_unsigned_decimal t)"

section \<open>Timecodes\<close>

text \<open>
  A destructured array element that is missing is \<^verbatim>\<open>undefined\<close>, which the arithmetic
  of \<open>timecodeToMs\<close> turns into \<open>NaN\<close>.
\<close>

definition elem :: "jsnum list \<Rightarrow> nat \<Rightarrow> jsnum" where
  "elem ns i = (if i < length ns then ns ! i else NaN)"

definition timecodeToMs :: "string \<Rightarrow> jsnum" where
  "timecodeToMs timecode =
     (let ns = map Number (str_split (CHR '';'') timecode);
          hours = elem ns 0;
          minutes = elem ns 1;
          seconds = elem ns 2;
          frames = elem ns 3
      in jadd (jadd (jadd (jmul hours (Fin 3600000)) (jmul minutes (Fin 60000)))
                    (jmul seconds (Fin 1000)))
              (jsnum_of (Math_floor (jmul frames (jdiv (Fin 1000) (Fin 30))))))"

definition msToTimecode :: "jsnum \<Rightarrow> string" where
  "msToTimecode ms =
     (let hours = Math_floor (jdiv ms (Fin 3600000));
          minutes = Math_floor (jdiv (jmod ms (Fin 3600000)) (Fin 60000));
          seconds = Math_floor (jdiv (jmod ms (Fin 60000)) (Fin 1000));
          frames = Math_floor (jdiv (jmul (jmod ms (Fin 1000)) (Fin 30)) (Fin 1000))
      in padStart 2 (CHR ''0'') (toString hours) @ '';''
         @ padStart 2 (CHR ''0'') (toString minutes) @ '';''
         @ padStart 2 (CHR ''0'') (toString seconds) @ '';''
         @ padStart 2 (CHR ''0'') (toString frames))"

section \<open>Data model\<close>

text \<open>The interfaces of \<^verbatim>\<open>transcriptMerger.ts\<close>, field for field.\<close>

record WhisperSegment =
  w_start :: jsnum
  w_end :: jsnum
  w_text :: string

record PremiereSegment =
  Speaker_Name :: string
  Start_Time :: string
  End_Time :: string
  Text :: string

record EnhancedSegment =
  speaker :: string
  startTime :: jsnum
  endTime :: jsnum
  text' :: string

record TranscriptOutput =
  csv :: string
  markdownWithTimestamps :: string
  markdownClean :: string

section \<open>Speaker resolution\<close>

text \<open>The \<^verbatim>\<open>for ... of\<close> loop with its early \<^verbatim>\<open>return\<close>.\<close>

fun findSpeakerAtTime :: "jsnum \<Rightarrow> PremiereSegment list \<Rightarrow> string" where
  "findSpeakerAtTime timeMs [] = ''Unknown''"
| "findSpeakerAtTime timeMs (segment # premiereSegments) =
     (let startMs = timecodeToMs (Start_Time segment);
          endMs = timecodeToMs (End_Time segment)
      in if jge timeMs startMs \<and> jle timeMs endMs then Speaker_Name segment
         else findSpeakerAtTime timeMs premiereSegments)"

section \<open>Grouped-text renderer\<close>

text \<open>
  \<open>generateMarkdown\<close> keeps three mutable locals, \<^verbatim>\<open>markdown\<close>, \<^verbatim>\<open>currentSpeaker\<close> and
  \<^verbatim>\<open>currentSegments\<close>, and updates them in a \<^verbatim>\<open>forEach\<close> over the segments with
  their indices. The locals are a record, the callback is \<open>md_step\<close>, the loop a left fold
  over the indexed segments.
\<close>

record Line =
  line_text :: string
  line_startTime :: jsnum
  line_endTime :: jsnum

record md_state =
  markdown :: string
  currentSpeaker :: string
  currentSegments :: "Line list"

definition to_line :: "EnhancedSegment \<Rightarrow> Line" where
  "to_line segment =
     \<lparr>line_text = text' segment, line_startTime = startTime segment,
      line_endTime = endTime segment\<rparr>"

definition render_line :: "bool \<Rightarrow> Line \<Rightarrow> string" where
  "render_line includeTimestamps seg =
     (if includeTimestamps then
        ''['' @ msToTimecode (line_startTime seg) @ '' - '' @ msToTimecode (line_endTime seg)
        @ ''] '' @ line_text seg @ [CHR 0x0A]
      else line_text seg @ [CHR 0x0A])"

definition md_body :: "bool \<Rightarrow> bool \<Rightarrow> md_state \<Rightarrow> EnhancedSegment \<Rightarrow> md_state" where
  "md_body includeTimestamps isLast st segment =
     (if speaker segment \<noteq> currentSpeaker st \<or> isLast then
        let cs1 = (if isLast then currentSegments st @ [to_line segment]
                   else currentSegments st);
            md1 = (if length cs1 > 0 then
                     foldl (\<lambda>md seg. md @ render_line includeTimestamps seg)
                       (markdown st @ ''**'' @ currentSpeaker st @ ''**'' @ [CHR 0x0A]) cs1
                     @ [CHR 0x0A]
                   else markdown st);
            cs2 = (if \<not> isLast then [to_line segment] else [])
        in \<lparr>markdown = md1, currentSpeaker = speaker segment, currentSegments = cs2\<rparr>
      else st\<lparr>currentSegments := currentSegments st @ [to_line segment]\<rparr>)"

definition md_step :: "bool \<Rightarrow> nat \<Rightarrow> md_state \<Rightarrow> nat \<times> EnhancedSegment \<Rightarrow> md_state" where
  "md_step includeTimestamps n st p =
     md_body includeTimestamps (int (fst p) = int n - 1) st (snd p)"

definition md_init :: md_state where
  "md_init = \<lparr>markdown = [], currentSpeaker = [], currentSegments = []\<rparr>"

definition generateMarkdown :: "EnhancedSegment list \<Rightarrow> bool \<Rightarrow> string" where
  "generateMarkdown segments includeTimestamps =
     markdown (foldl (md_step includeTimestamps (length segments)) md_init
                 (enumerate 0 segments))"

section \<open>Delimited-table writer\<close>

text \<open>
  Modelled from the spec: \<^verbatim>\<open>stringify\<close> comes from the package \<^verbatim>\<open>csv-stringify\<close>, which
  is not part of the sources. The specification of the delimited-table renderer says: one
  row per segment with the columns \<^verbatim>\<open>speaker, startTime, endTime, text\<close>, all fields
  quoted, header row included, and an empty segment sequence renders the empty string.
  The call passes \<^verbatim>\<open>quote: '"'\<close> and \<^verbatim>\<open>escape: '"'\<close>: a quote inside a field is doubled.
\<close>

definition quote_field :: "string \<Rightarrow> string" where
  "quote_field f =
     [CHR 0x22] @ concat (map (\<lambda>c. if c = CHR 0x22 then [CHR 0x22, CHR 0x22] else [c]) f)
     @ [CHR 0x22]"

fun join_fields :: "string list \<Rightarrow> string" where
  "join_fields [] = []"
| "join_fields [f] = f"
| "join_fields (f # g # fs) = f @ '','' @ join_fields (g # fs)"

definition csv_record :: "string list \<Rightarrow> string" where
  "csv_record fs = join_fields (map quote_field fs) @ [CHR 0x0A]"

definition stringify :: "string list list \<Rightarrow> string" where
  "stringify records =
     (if records = [] then []
      else csv_record [''speaker'', ''startTime'', ''endTime'', ''text'']
           @ concat (map csv_record records))"

section \<open>The merge\<close>

text \<open>
  \<^verbatim>\<open>parse\<close> comes from the package \<^verbatim>\<open>csv-parse\<close>, which is not part of the sources
  either: the two parsers (each \<^verbatim>\<open>parse\<close> with its options) are parameters of the model.
  A parser returns the records or throws; the exception leaves \<open>mergeTranscripts\<close>.
\<close>

datatype error = ParseError string

definition enhance :: "PremiereSegment list \<Rightarrow> WhisperSegment \<Rightarrow> EnhancedSegment" where
  "enhance premiereSegments whisperSegment =
     (let midpointMs = jadd (w_start whisperSegment)
                         (jdiv (jsub (w_end whisperSegment) (w_start whisperSegment)) (Fin 2));
          speaker = findSpeakerAtTime midpointMs premiereSegments
      in \<lparr>speaker = speaker, startTime = w_start whisperSegment,
          endTime = w_end whisperSegment, text' = str_trim (w_text whisperSegment)\<rparr>)"

definition enhancedSegments :: "WhisperSegment list \<Rightarrow> PremiereSegment list \<Rightarrow> EnhancedSegment list" where
  "enhancedSegments whisperSegments premiereSegments =
     map (enhance premiereSegments) whisperSegments"

definition csv_row :: "EnhancedSegment \<Rightarrow> string list" where
  "csv_row segment =
     [speaker segment, msToTimecode (startTime segment), msToTimecode (endTime segment),
      text' segment]"

definition render :: "EnhancedSegment list \<Rightarrow> TranscriptOutput" where
  "render segments =
     \<lparr>csv = stringify (map csv_row segments),
      markdownWithTimestamps = generateMarkdown segments True,
      markdownClean = generateMarkdown segments False\<rparr>"

definition mergeTranscripts ::
  "(string \<Rightarrow> error + WhisperSegment list) \<Rightarrow> (string \<Rightarrow> error + PremiereSegment list)
   \<Rightarrow> string \<Rightarrow> string \<Rightarrow> error + TranscriptOutput" where
  "mergeTranscripts parseWhisper parsePremiere whisperCsv premiereCsv =
     (case parseWhisper whisperCsv of
        Inl e \<Rightarrow> Inl e
      | Inr whisperSegments \<Rightarrow>
          (case parsePremiere premiereCsv of
             Inl e \<Rightarrow> Inl e
           | Inr premiereSegments \<Rightarrow>
               Inr (render (enhancedSegments whisperSegments premiereSegments))))"

section \<open>Notions used to state the properties\<close>


text \<open>
  The loop of \<open>generateMarkdown\<close> by recursion on the segments still to come: the index is
  the last one exactly when nothing follows.
\<close>

fun md_loop :: "bool \<Rightarrow> md_state \<Rightarrow> EnhancedSegment list \<Rightarrow> md_state" where
  "md_loop ts st [] = st"
| "md_loop ts st (seg # rest) = md_loop ts (md_body ts (rest = []) st seg) rest"

text \<open>
  A block is a heading and its lines. \<open>flushed\<close> lists the blocks that the loop writes out,
  in order, from the current speaker and buffer; it does not depend on the timestamps flag.
\<close>

type_synonym block = "string \<times> Line list"

definition render_block :: "bool \<Rightarrow> block \<Rightarrow> string" where
  "render_block ts b =
     ''**'' @ fst b @ ''**'' @ [CHR 0x0A] @ concat (map (render_line ts) (snd b)) @ [CHR 0x0A]"

fun flushed :: "string \<Rightarrow> Line list \<Rightarrow> EnhancedSegment list \<Rightarrow> block list" where
  "flushed sp cs [] = []"
| "flushed sp cs (seg # rest) =
     (if speaker seg \<noteq> sp \<or> rest = [] then
        (let cs1 = (if rest = [] then cs @ [to_line seg] else cs)
         in (if cs1 = [] then [] else [(sp, cs1)])
            @ flushed (speaker seg) (if rest = [] then [] else [to_line seg]) rest)
      else flushed sp (cs @ [to_line seg]) rest)"

definition flushed_blocks :: "EnhancedSegment list \<Rightarrow> block list" where
  "flushed_blocks segments = flushed [] [] segments"

text \<open>The inputs of the scenario, and two markers that meet at 5000 ms.\<close>

definition hello_segment :: WhisperSegment where
  "hello_segment = \<lparr>w_start = Fin 1000, w_end = Fin 3000, w_text = ''hello''\<rparr>"

definition alice_colons :: PremiereSegment where
  "alice_colons =
     \<lparr>Speaker_Name = ''Alice'', Start_Time = ''00:00:00:00'', End_Time = ''00:00:05:00'',
      Text = []\<rparr>"

definition alice_marker :: PremiereSegment where
  "alice_marker =
     \<lparr>Speaker_Name = ''Alice'', Start_Time = ''00;00;00;00'', End_Time = ''00;00;05;00'',
      Text = []\<rparr>"


definition scenario_parseWhisper :: "string \<Rightarrow> error + WhisperSegment list" where
  "scenario_parseWhisper s = Inr [hello_segment]"

definition scenario_parsePremiere :: "string \<Rightarrow> error + PremiereSegment list" where
  "scenario_parsePremiere s = Inr [alice_marker]"

definition seg_A1 :: EnhancedSegment where
  "seg_A1 = \<lparr>speaker = ''A'', startTime = Fin 0, endTime = Fin 1000, text' = ''one''\<rparr>"

definition seg_B :: EnhancedSegment where
  "seg_B = \<lparr>speaker = ''B'', startTime = Fin 1000, endTime = Fin 2000, text' = ''two''\<rparr>"

definition seg_A2 :: EnhancedSegment where
  "seg_A2 = \<lparr>speaker = ''A'', startTime = Fin 2000, endTime = Fin 3000, text' = ''three''\<rparr>"








section \<open>Empty input\<close>

lemma generateMarkdown_Nil: "generateMarkdown [] includeTimestamps = []"
  by (simp add: generateMarkdown_def md_init_def enumerate_eq_zip)

text \<open>
  C5. For the empty sequence of aligned segments, the delimited table, the grouped text
  with timestamps and the grouped text without timestamps are all the empty string.
\<close>

theorem render_empty:
  "render [] = \<lparr>csv = [], markdownWithTimestamps = [], markdownClean = []\<rparr>"
  by (simp add: render_def stringify_def generateMarkdown_Nil)

theorem render_empty_witness:
  "csv (render []) = [] \<and> markdownWithTimestamps (render []) = []
   \<and> markdownClean (render []) = []"
  using render_empty by simp

section \<open>Determinism\<close>



section \<open>Speaker resolution: first match, inclusive bounds\<close>



section \<open>The last segment of the grouped text\<close>

text \<open>
  C2. A sequence that ends in a speaker change: the last segment, spoken by B, follows a
  segment spoken by A. The renderer writes the last segment into A's block and never
  writes a heading for B.
\<close>

theorem generateMarkdown_final_speaker_change:
  "generateMarkdown [seg_A1, seg_B] False = ''**A**\<newline>one\<newline>two\<newline>\<newline>''"
  by code_simp

text \<open>
  C3. Speakers A, B, A: the renderer writes two blocks, A with the first segment and B
  with the second and the third, in both variants.
\<close>

theorem generateMarkdown_A_B_A:
  "generateMarkdown [seg_A1, seg_B, seg_A2] False
     = ''**A**\<newline>one\<newline>\<newline>**B**\<newline>two\<newline>three\<newline>\<newline>''
   \<and> generateMarkdown [seg_A1, seg_B, seg_A2] True
     = ''**A**\<newline>[00;00;00;00 - 00;00;01;00] one\<newline>\<newline>**B**\<newline>[00;00;01;00 - 00;00;02;00] two\<newline>[00;00;02;00 - 00;00;03;00] three\<newline>\<newline>''"
  by code_simp

section \<open>The two grouped-text variants\<close>

lemma foldl_append_lines:
  "foldl (\<lambda>md seg. md @ f seg) md xs = md @ concat (map f xs)"
  by (induction xs arbitrary: md) simp_all

lemma foldl_md_step:
  "foldl (md_step ts (k + length xs)) st (enumerate k xs) = md_loop ts st xs"
proof (induction xs arbitrary: k st)
  case Nil
  then show ?case by simp
next
  case (Cons x xs)
  have last: "(int k = int (k + length (x # xs)) - 1) = (xs = [])" by auto
  have "foldl (md_step ts (k + length (x # xs))) st (enumerate k (x # xs))
        = foldl (md_step ts (Suc k + length xs)) (md_body ts (xs = []) st x) (enumerate (Suc k) xs)"
    using last by (simp add: md_step_def)
  then show ?case using Cons.IH [of "Suc k" "md_body ts (xs = []) st x"] by simp
qed

lemma generateMarkdown_md_loop:
  "generateMarkdown segments ts = markdown (md_loop ts md_init segments)"
  using foldl_md_step [of ts 0 segments md_init] by (simp add: generateMarkdown_def)

lemma md_loop_flushed:
  "markdown (md_loop ts st segs)
   = markdown st
     @ concat (map (render_block ts) (flushed (currentSpeaker st) (currentSegments st) segs))"
proof (induction segs arbitrary: st)
  case Nil
  then show ?case by simp
next
  case (Cons seg rest)
  show ?case
    by (simp add: Cons.IH md_body_def Let_def foldl_append_lines render_block_def)
qed

lemma generateMarkdown_blocks:
  "generateMarkdown segments ts = concat (map (render_block ts) (flushed_blocks segments))"
  by (simp add: generateMarkdown_md_loop md_loop_flushed md_init_def flushed_blocks_def)

text \<open>
  C9. For every sequence of aligned segments, the render with timestamps and the clean
  render are the renders of one and the same list of blocks: the same headings in the same
  order, with the same lines under each. A line with timestamps is the clean line behind
  the prefix \<^verbatim>\<open>[startTimecode - endTimecode] \<close> of its segment.
\<close>

theorem generateMarkdown_same_structure:
  "generateMarkdown segments True = concat (map (render_block True) (flushed_blocks segments))
   \<and> generateMarkdown segments False = concat (map (render_block False) (flushed_blocks segments))
   \<and> render_line True l
       = ''['' @ msToTimecode (line_startTime l) @ '' - '' @ msToTimecode (line_endTime l)
         @ ''] '' @ render_line False l"
  by (simp add: generateMarkdown_blocks render_line_def)

theorem generateMarkdown_same_structure_witness:
  "generateMarkdown [seg_A1, seg_B, seg_A2] True
     = concat (map (render_block True)
         [(''A'', [to_line seg_A1]), (''B'', [to_line seg_B, to_line seg_A2])])
   \<and> generateMarkdown [seg_A1, seg_B, seg_A2] False
     = concat (map (render_block False)
         [(''A'', [to_line seg_A1]), (''B'', [to_line seg_B, to_line seg_A2])])
   \<and> render_line True (to_line seg_B) = ''[00;00;01;00 - 00;00;02;00] '' @ render_line False (to_line seg_B)"
proof -
  have b: "flushed_blocks [seg_A1, seg_B, seg_A2]
           = [(''A'', [to_line seg_A1]), (''B'', [to_line seg_B, to_line seg_A2])]"
    by code_simp
  have t: "msToTimecode (line_startTime (to_line seg_B)) = ''00;00;01;00''"
    "msToTimecode (line_endTime (to_line seg_B)) = ''00;00;02;00''"
    by code_simp+
  from generateMarkdown_same_structure [of "[seg_A1, seg_B, seg_A2]" "to_line seg_B"]
  show ?thesis by (simp only: b t append.simps append_assoc)
qed

section \<open>Digits, padding and splitting\<close>






















section \<open>Arithmetic of the timecode components\<close>





























section \<open>Timecode to milliseconds\<close>




section \<open>Milliseconds to timecode\<close>




section \<open>Round trip\<close>



section \<open>The scenario\<close>

lemma enhance_Text: "enhance [p\<lparr>Text := t\<rparr>] w = enhance [p] w"
  by (simp add: enhance_def Let_def)

text \<open>
  C1, as amended. The speech source yields the one segment from 1000 to 3000 with text
  \<^verbatim>\<open>hello\<close>, the editor source the one marker of Alice with the times \<^verbatim>\<open>00;00;00;00\<close>
  and \<^verbatim>\<open>00;00;05;00\<close>, written with semicolons. Then the aligned segment has speaker
  Alice, start 1000, end 3000 and text \<^verbatim>\<open>hello\<close>, and the table holds the row with every
  field quoted.
\<close>

theorem mergeTranscripts_scenario:
  assumes \<open>parseWhisper whisperCsv = Inr [hello_segment]\<close>
    and \<open>parsePremiere premiereCsv = Inr [alice_marker\<lparr>Text := t\<rparr>]\<close>
  shows \<open>enhancedSegments [hello_segment] [alice_marker\<lparr>Text := t\<rparr>]
           = [\<lparr>speaker = ''Alice'', startTime = Fin 1000, endTime = Fin 3000, text' = ''hello''\<rparr>]
         \<and> (\<exists>out. mergeTranscripts parseWhisper parsePremiere whisperCsv premiereCsv = Inr out
              \<and> ''"Alice","00;00;01;00","00;00;03;00","hello"''
                  \<in> set (str_split (CHR 0x0A) (csv out)))\<close>
proof -
  have e: \<open>enhancedSegments [hello_segment] [alice_marker]
           = [\<lparr>speaker = ''Alice'', startTime = Fin 1000, endTime = Fin 3000, text' = ''hello''\<rparr>]\<close>
    by code_simp
  have e': \<open>enhancedSegments [hello_segment] [alice_marker\<lparr>Text := t\<rparr>]
           = enhancedSegments [hello_segment] [alice_marker]\<close>
    by (simp add: enhancedSegments_def enhance_Text)
  have r: \<open>''"Alice","00;00;01;00","00;00;03;00","hello"''
            \<in> set (str_split (CHR 0x0A)
                 (csv (render [\<lparr>speaker = ''Alice'', startTime = Fin 1000, endTime = Fin 3000,
                                 text' = ''hello''\<rparr>])))\<close>
    by code_simp
  have m: \<open>mergeTranscripts parseWhisper parsePremiere whisperCsv premiereCsv
           = Inr (render [\<lparr>speaker = ''Alice'', startTime = Fin 1000, endTime = Fin 3000,
                           text' = ''hello''\<rparr>])\<close>
    by (simp add: mergeTranscripts_def assms e' e)
  from e e' r m show ?thesis by simp
qed

theorem mergeTranscripts_scenario_witness:
  \<open>scenario_parseWhisper ''w'' = Inr [hello_segment]
   \<and> scenario_parsePremiere ''p'' = Inr [alice_marker\<lparr>Text := []\<rparr>]
   \<and> enhancedSegments [hello_segment] [alice_marker]
       = [\<lparr>speaker = ''Alice'', startTime = Fin 1000, endTime = Fin 3000, text' = ''hello''\<rparr>]
   \<and> (\<exists>out. mergeTranscripts scenario_parseWhisper scenario_parsePremiere ''w'' ''p'' = Inr out
        \<and> ''"Alice","00;00;01;00","00;00;03;00","hello"''
            \<in> set (str_split (CHR 0x0A) (csv out)))\<close>
proof -
  have a: \<open>scenario_parseWhisper ''w'' = Inr [hello_segment]\<close>
    by (simp add: scenario_parseWhisper_def)
  have u: \<open>alice_marker\<lparr>Text := []\<rparr> = alice_marker\<close>
    by (simp add: alice_marker_def)
  have b: \<open>scenario_parsePremiere ''p'' = Inr [alice_marker\<lparr>Text := []\<rparr>]\<close>
    by (simp add: scenario_parsePremiere_def u)
  from mergeTranscripts_scenario [where parseWhisper = scenario_parseWhisper
      and whisperCsv = "''w''" and parsePremiere = scenario_parsePremiere
      and premiereCsv = "''p''" and t = "[]", OF a b] a b
  show ?thesis by (simp add: u)
qed

text \<open>
  C1 as stated fails: with the marker's times written with colons, as in the scenario,
  neither time converts, the midpoint lies in no interval and the speaker is
  \<^verbatim>\<open>Unknown\<close>; and the table holds no row with unquoted fields.
\<close>

theorem scenario_with_colons:
  \<open>enhancedSegments [hello_segment] [alice_colons]
     = [\<lparr>speaker = ''Unknown'', startTime = Fin 1000, endTime = Fin 3000, text' = ''hello''\<rparr>]
   \<and> ''Alice,00;00;01;00,00;00;03;00,hello''
       \<notin> set (str_split (CHR 0x0A) (csv (render (enhancedSegments [hello_segment] [alice_colons]))))
   \<and> ''Alice,00;00;01;00,00;00;03;00,hello''
       \<notin> set (str_split (CHR 0x0A) (csv (render (enhancedSegments [hello_segment] [alice_marker]))))\<close>
  by code_simp

end
